theory Spec2Isabelle
  imports Complex_Main
begin

section \<open>Python values\<close>

text \<open>
  The pipeline handles values decoded from JSON: \<open>None\<close>, booleans, unbounded integers,
  floats, strings, lists and dictionaries. A dictionary keeps insertion order, so it is an
  association list; the operations below keep at most one entry per key, as Python does.
  A float is modelled by the rational it stands for.
\<close>

datatype pyval =
    PNone
  | PBool bool
  | PInt int
  | PFloat rat
  | PStr string
  | PList "pyval list"
  | PDict "(string \<times> pyval) list"

type_synonym pydict = "(string \<times> pyval) list"

text \<open>\<open>d[k] = v\<close>: an existing key keeps its position and takes the new value, a new key
  is appended.\<close>

fun dict_set :: "(string \<times> 'v) list \<Rightarrow> string \<Rightarrow> 'v \<Rightarrow> (string \<times> 'v) list" where
  "dict_set [] k v = [(k, v)]"
| "dict_set ((k', v') # d) k v = (if k' = k then (k, v) # d else (k', v') # dict_set d k v)"

text \<open>\<open>dict(items)\<close> and the dictionary display \<open>{k1: v1, **d, ...}\<close>: the pairs are stored
  one after the other, from left to right.\<close>

definition dict_of_items :: "(string \<times> 'v) list \<Rightarrow> (string \<times> 'v) list" where
  "dict_of_items items = foldl (\<lambda>d (k, v). dict_set d k v) [] items"

text \<open>\<open>d.get(k)\<close> is \<open>map_of d k\<close>, with \<open>None\<close> for Python's \<open>None\<close> default.\<close>

definition dict_get :: "pydict \<Rightarrow> string \<Rightarrow> pyval \<Rightarrow> pyval" where
  "dict_get d k dflt = (case map_of d k of Some v \<Rightarrow> v | None \<Rightarrow> dflt)"

text \<open>Truth value testing, as \<open>if x\<close> and \<open>not x\<close> do it.\<close>

fun truthy :: "pyval \<Rightarrow> bool" where
  "truthy PNone = False"
| "truthy (PBool b) = b"
| "truthy (PInt i) = (i \<noteq> 0)"
| "truthy (PFloat r) = (r \<noteq> 0)"
| "truthy (PStr s) = (s \<noteq> [])"
| "truthy (PList xs) = (xs \<noteq> [])"
| "truthy (PDict d) = (d \<noteq> [])"

text \<open>Decimal digits of a natural number and of an integer (\<open>str(n)\<close>), and zero padding
  to a fixed width (\<open>%02d\<close>).\<close>

definition digit_char :: "nat \<Rightarrow> char" where
  "digit_char n = ''0123456789'' ! n"

fun show_nat :: "nat \<Rightarrow> string" where
  "show_nat n = (if n < 10 then [digit_char n] else show_nat (n div 10) @ [digit_char (n mod 10)])"

declare show_nat.simps [simp del]

definition show_int :: "int \<Rightarrow> string" where
  "show_int i = (if i < 0 then CHR ''-'' # show_nat (nat (- i)) else show_nat (nat i))"

definition zero_pad :: "nat \<Rightarrow> nat \<Rightarrow> string" where
  "zero_pad w n = replicate (w - length (show_nat n)) CHR ''0'' @ show_nat n"

text \<open>
  The functions of the Python library that the pipeline calls and that are no part of the
  repository are parameters of the model: the three ways \<open>json.dumps\<close> is called, the MD5
  digest, the \<open>repr\<close> of floats and of containers, the UTF-8 encoder, \<open>str.lower\<close>,
  \<open>urljoin\<close>, and the side to which \<open>round(x, 2)\<close> sends a value that lies halfway
  between two hundredths (it depends on the binary representation of the quotient).
\<close>

record pylib =
  json_dumps :: "pyval \<Rightarrow> string"
  json_dumps_sort_keys :: "pyval \<Rightarrow> string"
  json_dumps_indent2 :: "pyval \<Rightarrow> string"
  md5_hexdigest :: "string \<Rightarrow> string"
  float_repr :: "rat \<Rightarrow> string"
  container_repr :: "pyval \<Rightarrow> string"
  encode_utf8 :: "string \<Rightarrow> string"
  str_lower :: "string \<Rightarrow> string"
  urljoin :: "string \<Rightarrow> string \<Rightarrow> string"
  round_tie_up :: "rat \<Rightarrow> bool"

text \<open>\<open>str(v)\<close>.\<close>

fun py_str :: "pylib \<Rightarrow> pyval \<Rightarrow> string" where
  "py_str lib PNone = ''None''"
| "py_str lib (PBool b) = (if b then ''True'' else ''False'')"
| "py_str lib (PInt i) = show_int i"
| "py_str lib (PFloat r) = float_repr lib r"
| "py_str lib (PStr s) = s"
| "py_str lib (PList xs) = container_repr lib (PList xs)"
| "py_str lib (PDict d) = container_repr lib (PDict d)"

text \<open>\<open>round(q, 2)\<close> for a quotient \<open>q \<ge> 0\<close>: the nearest hundredth.\<close>

definition py_round2 :: "pylib \<Rightarrow> rat \<Rightarrow> rat" where
  "py_round2 lib q =
     (let n = \<lfloor>q * 100\<rfloor>; frac = q * 100 - of_int n in
      if frac < 1 / 2 then of_int n / 100
      else if 1 / 2 < frac then of_int (n + 1) / 100
      else if round_tie_up lib q then of_int (n + 1) / 100 else of_int n / 100)"

section \<open>The clock\<close>

text \<open>
  \<open>datetime.now(UTC)\<close> reads the wall clock. The readings are an input of the model: the
  clock is a function from the number of readings made so far to the time of the next one,
  and the state of the world counts the readings.
\<close>

record datetime =
  dt_year :: nat
  dt_month :: nat
  dt_day :: nat
  dt_hour :: nat
  dt_minute :: nat
  dt_second :: nat
  dt_microsecond :: nat

text \<open>\<open>isoformat()\<close> of an aware UTC datetime; the fraction is left out when it is zero.\<close>

definition isoformat :: "datetime \<Rightarrow> string" where
  "isoformat t =
     zero_pad 4 (dt_year t) @ ''-'' @ zero_pad 2 (dt_month t) @ ''-'' @ zero_pad 2 (dt_day t)
     @ ''T'' @ zero_pad 2 (dt_hour t) @ '':'' @ zero_pad 2 (dt_minute t) @ '':''
     @ zero_pad 2 (dt_second t)
     @ (if dt_microsecond t = 0 then [] else ''.'' @ zero_pad 6 (dt_microsecond t))
     @ ''+00:00''"

text \<open>\<open>strftime("%Y%m%d_%H%M%S")\<close>.\<close>

definition strftime_key :: "datetime \<Rightarrow> string" where
  "strftime_key t =
     zero_pad 4 (dt_year t) @ zero_pad 2 (dt_month t) @ zero_pad 2 (dt_day t) @ ''_''
     @ zero_pad 2 (dt_hour t) @ zero_pad 2 (dt_minute t) @ zero_pad 2 (dt_second t)"

section \<open>Exceptions, the outside world and the state\<close>

text \<open>
  An exception is a value. \<open>RequestException\<close> stands for \<open>requests.RequestException\<close> and
  its subclasses, told apart by a tag: \<open>HTTPError\<close> (raised by \<open>raise_for_status\<close>, with the
  status code), \<open>ConnectionError\<close>, \<open>Timeout\<close> and the others.
\<close>

datatype request_fault = ConnectionError | Timeout | HTTPError nat | OtherRequestFault

datatype exn =
    RequestException request_fault string
  | ValueError string
  | KeyError string
  | AttributeError string
  | TypeError string
  | ClientError string

text \<open>What \<open>session.get\<close> does: it raises, or it returns a response with a status code,
  the text that \<open>raise_for_status\<close> puts into its HTTPError, and the outcome of
  \<open>response.json()\<close>.\<close>

datatype http_result =
    GetRaises exn
  | GetReturns nat string "exn + pyval"

text \<open>An object in the bucket, as \<open>put_object\<close> stores it.\<close>

record s3_object =
  obj_body :: string
  obj_content_type :: string
  obj_metadata :: "(string \<times> string) list"
  obj_encryption :: "string option"

text \<open>
  The state of the world: how often the clock was read, how many HTTP requests, random draws
  and \<open>put_object\<close> calls were made, the pauses taken by \<open>time.sleep\<close> in order, and the
  objects stored so far, by bucket and key.
\<close>

record world =
  clock_reads :: nat
  http_calls :: nat
  random_draws :: nat
  put_calls :: nat
  sleeps :: "rat list"
  s3_objects :: "string \<times> string \<rightharpoonup> s3_object"

text \<open>
  What the outside answers: the civil time and the seconds shown by the clock at its n-th
  reading, the result of the n-th HTTP request for a URL and its parameters, the n-th draw of
  \<open>random.random()\<close>, and the fault, if any, of the n-th \<open>put_object\<close> call.
\<close>

record outside =
  clock :: "nat \<Rightarrow> datetime"
  clock_seconds :: "nat \<Rightarrow> rat"
  http_get :: "nat \<Rightarrow> string \<Rightarrow> pyval \<Rightarrow> http_result"
  random_unit :: "nat \<Rightarrow> rat"
  put_fault :: "nat \<Rightarrow> exn option"

text \<open>\<open>datetime.now(UTC)\<close>.\<close>

definition datetime_now :: "outside \<Rightarrow> world \<Rightarrow> datetime \<times> world" where
  "datetime_now out w = (clock out (clock_reads w), w\<lparr>clock_reads := Suc (clock_reads w)\<rparr>)"

text \<open>\<open>type(v).__name__\<close>.\<close>

fun type_name :: "pyval \<Rightarrow> string" where
  "type_name PNone = ''NoneType''"
| "type_name (PBool b) = ''bool''"
| "type_name (PInt i) = ''int''"
| "type_name (PFloat r) = ''float''"
| "type_name (PStr s) = ''str''"
| "type_name (PList xs) = ''list''"
| "type_name (PDict d) = ''dict''"

text \<open>A name between single quotes, as Python's messages show it.\<close>

definition quoted :: "string \<Rightarrow> string" where
  "quoted s = CHR 0x27 # s @ [CHR 0x27]"

section \<open>The data processor (data\_processor.py)\<close>

text \<open>
  \<open>_flatten_record\<close>: the loop collects the pairs in \<open>items\<close>, and the result is
  \<open>dict(items)\<close>. A nested dictionary is flattened under the new key and contributes the
  entries of its flattened dictionary; a list is replaced by its JSON text.
\<close>

definition new_key :: "string \<Rightarrow> string \<Rightarrow> string \<Rightarrow> string" where
  "new_key parent_key sep key = (if parent_key \<noteq> [] then parent_key @ sep @ key else key)"

fun flatten_items :: "pylib \<Rightarrow> pydict \<Rightarrow> string \<Rightarrow> string \<Rightarrow> pydict" where
  "flatten_items lib [] parent_key sep = []"
| "flatten_items lib ((key, PDict d) # rest) parent_key sep =
     dict_of_items (flatten_items lib d (new_key parent_key sep key) sep)
     @ flatten_items lib rest parent_key sep"
| "flatten_items lib ((key, PList xs) # rest) parent_key sep =
     (new_key parent_key sep key, PStr (json_dumps lib (PList xs)))
     # flatten_items lib rest parent_key sep"
| "flatten_items lib ((key, v) # rest) parent_key sep =
     (new_key parent_key sep key, v) # flatten_items lib rest parent_key sep"

definition flatten_record :: "pylib \<Rightarrow> pydict \<Rightarrow> string \<Rightarrow> string \<Rightarrow> pydict" where
  "flatten_record lib record parent_key sep =
     dict_of_items (flatten_items lib record parent_key sep)"

definition generate_id :: "pylib \<Rightarrow> pydict \<Rightarrow> string" where
  "generate_id lib record =
     md5_hexdigest lib (encode_utf8 lib (json_dumps_sort_keys lib (PDict record)))"

definition calculate_quality_score :: "pylib \<Rightarrow> pydict \<Rightarrow> rat" where
  "calculate_quality_score lib record =
     (let total_fields = length record in
      if total_fields = 0 then 0
      else
        let filled_fields = length (filter (\<lambda>v. v \<noteq> PNone \<and> v \<noteq> PStr []) (map snd record))
        in py_round2 lib (of_nat filled_fields / of_nat total_fields))"

definition check_completeness :: "pydict \<Rightarrow> bool" where
  "check_completeness record =
     list_all (\<lambda>field. dict_get record field PNone \<noteq> PNone) [''id'']"

text \<open>
  \<open>_process_record\<close>. A falsy record gives \<open>None\<close>. Of a truthy value that is no
  dictionary, \<open>record.get\<close> raises AttributeError before the clock is read. Otherwise the
  dictionary display is built from left to right: the three standard fields, then the
  entries of the flattened record, then the two quality fields.
\<close>

fun process_record :: "pylib \<Rightarrow> outside \<Rightarrow> pyval \<Rightarrow> world \<Rightarrow> (exn + pydict option) \<times> world" where
  "process_record lib out (PDict record) w =
     (if record = [] then (Inr None, w)
      else
        let ident = py_str lib (dict_get record ''id'' (PStr (generate_id lib record)));
            (created, w1) = datetime_now out w;
            (processed_at, w2) = datetime_now out w1
        in (Inr (Some (dict_of_items
              ([(''id'', PStr ident),
                (''created_at'', PStr (isoformat created)),
                (''processed_at'', PStr (isoformat processed_at))]
               @ flatten_record lib record [] ''_''
               @ [(''data_quality_score'', PFloat (calculate_quality_score lib record)),
                  (''is_complete'', PBool (check_completeness record))]))), w2))"
| "process_record lib out v w =
     (if \<not> truthy v then (Inr None, w)
      else (Inl (AttributeError (quoted (type_name v) @ '' object has no attribute '' @ quoted ''get'')), w))"

text \<open>\<open>process\<close>: the loop over the raw records. A record whose processing raises is
  logged and skipped; so is one for which \<open>_process_record\<close> returns \<open>None\<close>.\<close>

fun process_loop :: "pylib \<Rightarrow> outside \<Rightarrow> pyval list \<Rightarrow> pydict list \<Rightarrow> world \<Rightarrow> pydict list \<times> world" where
  "process_loop lib out [] processed_data w = (processed_data, w)"
| "process_loop lib out (record # rest) processed_data w =
     (case process_record lib out record w of
        (Inl e, w') \<Rightarrow> process_loop lib out rest processed_data w'
      | (Inr None, w') \<Rightarrow> process_loop lib out rest processed_data w'
      | (Inr (Some processed_record), w') \<Rightarrow>
          if processed_record \<noteq> []
          then process_loop lib out rest (processed_data @ [processed_record]) w'
          else process_loop lib out rest processed_data w')"

definition process :: "pylib \<Rightarrow> outside \<Rightarrow> pyval list \<Rightarrow> world \<Rightarrow> pydict list \<times> world" where
  "process lib out raw_data w = process_loop lib out raw_data [] w"

text \<open>\<open>add_metadata\<close>: the caller's entries first, then the three computed ones.\<close>

definition add_metadata :: "outside \<Rightarrow> pydict list \<Rightarrow> pydict \<Rightarrow> world \<Rightarrow> pydict \<times> world" where
  "add_metadata out data metadata w =
     (let (t, w1) = datetime_now out w
      in (dict_of_items
            (metadata
             @ [(''record_count'', PInt (int (length data))),
                (''processing_timestamp'', PStr (isoformat t)),
                (''schema_version'', PStr ''1.0.0'')]), w1))"

section \<open>The API client (api\_client.py)\<close>

text \<open>
  The handling of the response structures in \<open>fetch_data\<close>: a list is returned as it is;
  of a dictionary the value under \<open>data\<close>, \<open>results\<close> or \<open>items\<close> (the first of the
  three keys that is present), or else the dictionary as the only element of a list; any
  other value gives the empty list, with a warning.
\<close>

fun response_records :: "pyval \<Rightarrow> pyval" where
  "response_records (PList xs) = PList xs"
| "response_records (PDict d) =
     (case map_of d ''data'' of
        Some v \<Rightarrow> v
      | None \<Rightarrow>
          (case map_of d ''results'' of
             Some v \<Rightarrow> v
           | None \<Rightarrow>
               (case map_of d ''items'' of
                  Some v \<Rightarrow> v
                | None \<Rightarrow> PList [PDict d])))"
| "response_records other = PList []"

text \<open>
  The body of \<open>fetch_data\<close>, one attempt. Both \<open>except\<close> clauses log and raise again, so
  every exception of the request, of \<open>raise_for_status\<close> (a status from 400 to 599) and of
  \<open>response.json()\<close> leaves the attempt.
\<close>

definition fetch_data_attempt :: "pylib \<Rightarrow> outside \<Rightarrow> string \<Rightarrow> string \<Rightarrow> pyval \<Rightarrow> world \<Rightarrow> (exn + pyval) \<times> world" where
  "fetch_data_attempt lib out base_url endpoint params w =
     (let url = (if endpoint \<noteq> [] then urljoin lib base_url endpoint else base_url);
          w1 = w\<lparr>http_calls := Suc (http_calls w)\<rparr>
      in case http_get out (http_calls w) url params of
           GetRaises e \<Rightarrow> (Inl e, w1)
         | GetReturns status_code error_text json \<Rightarrow>
             if 400 \<le> status_code \<and> status_code < 600
             then (Inl (RequestException (HTTPError status_code) error_text), w1)
             else (case json of
                     Inl e \<Rightarrow> (Inl e, w1)
                   | Inr data \<Rightarrow> (Inr (response_records data), w1)))"

text \<open>The exceptions that the decorator of \<open>fetch_data\<close> retries:
  \<open>(requests.RequestException, requests.Timeout)\<close>.\<close>

fun retried_exception :: "exn \<Rightarrow> bool" where
  "retried_exception (RequestException fault text) = True"
| "retried_exception e = False"

text \<open>\<open>time.sleep\<close>, and a draw of \<open>random.random()\<close>.\<close>

definition time_sleep :: "rat \<Rightarrow> world \<Rightarrow> world" where
  "time_sleep seconds w = w\<lparr>sleeps := sleeps w @ [seconds]\<rparr>"

definition random_random :: "outside \<Rightarrow> world \<Rightarrow> rat \<times> world" where
  "random_random out w = (random_unit out (random_draws w), w\<lparr>random_draws := Suc (random_draws w)\<rparr>)"

definition read_seconds :: "outside \<Rightarrow> world \<Rightarrow> rat \<times> world" where
  "read_seconds out w = (clock_seconds out (clock_reads w), w\<lparr>clock_reads := Suc (clock_reads w)\<rparr>)"

text \<open>
  The decorator \<open>backoff.on_exception(backoff.expo, ..., max_tries, max_time)\<close>, as the
  backoff library runs it: each try reads the elapsed time and calls the target. An exception
  of the retried classes is raised again when this was try number \<open>max_tries\<close> or when
  \<open>max_time\<close> had elapsed as the try began. Otherwise the next value of the generator
  \<open>expo\<close> (1, 2, 4, ...) is taken, scaled by a random factor (full jitter), capped by the
  time left to \<open>max_time\<close>, slept, and the target is tried again. Any other exception
  leaves at once. The library tests \<open>tries == max_tries\<close>; the tries are counted from 1
  upwards, so for a positive \<open>max_tries\<close> that is the first time \<open>max_tries \<le> tries\<close>
  holds, which is the test written here.
\<close>

function on_exception_loop ::
  "outside \<Rightarrow> nat \<Rightarrow> rat \<Rightarrow> (world \<Rightarrow> (exn + pyval) \<times> world) \<Rightarrow> rat \<Rightarrow> nat \<Rightarrow> world \<Rightarrow> (exn + pyval) \<times> world" where
  "on_exception_loop out max_tries max_time target start tries w =
     (let tries' = Suc tries;
          (now, w1) = read_seconds out w;
          elapsed = now - start
      in case target w1 of
           (Inr ret, w2) \<Rightarrow> (Inr ret, w2)
         | (Inl e, w2) \<Rightarrow>
             if \<not> retried_exception e then (Inl e, w2)
             else if max_tries \<le> tries' \<or> max_time \<le> elapsed then (Inl e, w2)
             else
               let value = 2 ^ tries;
                   (u, w3) = random_random out w2;
                   seconds = min (value * u) (max_time - elapsed)
               in on_exception_loop out max_tries max_time target start tries' (time_sleep seconds w3))"
  by pat_completeness auto
termination
  by (relation "measure (\<lambda>(out, max_tries, max_time, target, start, tries, w). max_tries - tries)")
     auto

declare on_exception_loop.simps [simp del]

definition on_exception ::
  "outside \<Rightarrow> nat \<Rightarrow> rat \<Rightarrow> (world \<Rightarrow> (exn + pyval) \<times> world) \<Rightarrow> world \<Rightarrow> (exn + pyval) \<times> world" where
  "on_exception out max_tries max_time target w =
     (let (start, w0) = read_seconds out w
      in on_exception_loop out max_tries max_time target start 0 w0)"

text \<open>\<open>fetch_data\<close> as the module defines it: the body under the decorator, with
  \<open>max_tries=3\<close> and \<open>max_time=60\<close>.\<close>

definition fetch_data :: "pylib \<Rightarrow> outside \<Rightarrow> string \<Rightarrow> string \<Rightarrow> pyval \<Rightarrow> world \<Rightarrow> (exn + pyval) \<times> world" where
  "fetch_data lib out base_url endpoint params w =
     on_exception out 3 60 (fetch_data_attempt lib out base_url endpoint params) w"

text \<open>\<open>all_data.extend(data)\<close>: a list gives its elements, a string its characters, a
  dictionary its keys; a number or a boolean is not iterable.\<close>

fun py_iter :: "pyval \<Rightarrow> exn + pyval list" where
  "py_iter (PList xs) = Inr xs"
| "py_iter (PStr s) = Inr (map (\<lambda>c. PStr [c]) s)"
| "py_iter (PDict d) = Inr (map (\<lambda>(k, v). PStr k) d)"
| "py_iter v = Inl (TypeError (quoted (type_name v) @ '' object is not iterable''))"



section \<open>The object writer (s3\_writer.py)\<close>

text \<open>\<open>sep.join(xs)\<close>.\<close>

fun str_join :: "string \<Rightarrow> string list \<Rightarrow> string" where
  "str_join sep [] = []"
| "str_join sep [x] = x"
| "str_join sep (x # y # ys) = x @ sep @ str_join sep (y # ys)"

text \<open>\<open>put_object\<close>: the bucket's answer is an input; a call that succeeds stores the
  object under its bucket and key, replacing what was there.\<close>

definition put_object :: "outside \<Rightarrow> string \<Rightarrow> string \<Rightarrow> s3_object \<Rightarrow> world \<Rightarrow> (exn + unit) \<times> world" where
  "put_object out bucket key obj w =
     (case put_fault out (put_calls w) of
        Some e \<Rightarrow> (Inl e, w\<lparr>put_calls := Suc (put_calls w)\<rparr>)
      | None \<Rightarrow>
          (Inr (), w\<lparr>put_calls := Suc (put_calls w),
                     s3_objects := (s3_objects w)((bucket, key) \<mapsto> obj)\<rparr>))"

definition to_json :: "pylib \<Rightarrow> pydict list \<Rightarrow> string" where
  "to_json lib data = encode_utf8 lib (json_dumps_indent2 lib (PList (map PDict data)))"

definition to_csv_simple :: "pylib \<Rightarrow> pydict list \<Rightarrow> string" where
  "to_csv_simple lib data =
     (case data of
        [] \<Rightarrow> []
      | first # _ \<Rightarrow>
          let headers = map fst first;
              lines = str_join '','' headers
                # map (\<lambda>record. str_join '','' (map (\<lambda>h. py_str lib (dict_get record h (PStr []))) headers)) data
          in encode_utf8 lib (str_join [CHR 0x0A] lines))"

definition infer_schema :: "pydict list \<Rightarrow> pydict" where
  "infer_schema data =
     (case data of
        [] \<Rightarrow> []
      | sample # _ \<Rightarrow> dict_of_items (map (\<lambda>(key, value). (key, PStr (type_name value))) sample))"

text \<open>\<open>_write_metadata_file\<close>: a failure of its \<open>put_object\<close> is logged and swallowed.\<close>

definition write_metadata_file :: "pylib \<Rightarrow> outside \<Rightarrow> string \<Rightarrow> string \<Rightarrow> pydict list \<Rightarrow> pydict option \<Rightarrow> world \<Rightarrow> world" where
  "write_metadata_file lib out bucket_name data_key data metadata w =
     (let metadata_key = data_key @ ''.metadata.json'';
          (t, w1) = datetime_now out w;
          metadata_content =
            [(''data_file'', PStr data_key),
             (''created_at'', PStr (isoformat t)),
             (''record_count'', PInt (int (length data))),
             (''schema'', PDict (infer_schema data)),
             (''custom_metadata'', PDict (case metadata of None \<Rightarrow> [] | Some m \<Rightarrow> m))]
      in snd (put_object out bucket_name metadata_key
                \<lparr>obj_body = encode_utf8 lib (json_dumps_indent2 lib (PDict metadata_content)),
                 obj_content_type = ''application/json'',
                 obj_metadata = [],
                 obj_encryption = None\<rparr> w1))"

text \<open>The tags sent with the data object: the three fixed ones, then one for each entry of
  the caller's metadata whose key and value together are shorter than 1024 characters.\<close>

definition s3_metadata_of :: "pylib \<Rightarrow> pydict list \<Rightarrow> string \<Rightarrow> string \<Rightarrow> pydict option \<Rightarrow> (string \<times> string) list" where
  "s3_metadata_of lib data format timestamp metadata =
     foldl (\<lambda>s3_metadata (key, value).
              if length key + length (py_str lib value) < 1024
              then dict_set s3_metadata
                     (str_lower lib (map (\<lambda>c. if c = CHR '' '' then CHR ''_'' else c) key))
                     (py_str lib value)
              else s3_metadata)
       [(''record_count'', show_nat (length data)),
        (''format'', if format = ''parquet'' then ''json'' else format),
        (''timestamp'', timestamp)]
       (case metadata of None \<Rightarrow> [] | Some m \<Rightarrow> m)"

text \<open>
  \<open>write_data\<close>. The clock is read once. An unknown format raises ValueError before
  anything is sent. A failure of the data object's \<open>put_object\<close> is logged and raised
  again; after a success the metadata file is written and the key returned.
\<close>

definition write_data :: "pylib \<Rightarrow> outside \<Rightarrow> string \<Rightarrow> pydict list \<Rightarrow> string \<Rightarrow> string \<Rightarrow> pydict option \<Rightarrow> world \<Rightarrow> (exn + string) \<times> world" where
  "write_data lib out bucket_name data prefix format metadata w =
     (let (t, w1) = datetime_now out w;
          timestamp = strftime_key t
      in if format \<in> set [''parquet'', ''json''] \<or> format = ''csv'' then
           let (s3_key, content, content_type) =
                 (if format \<in> set [''parquet'', ''json'']
                  then (prefix @ ''/data_'' @ timestamp @ ''.json'', to_json lib data,
                        ''application/json'')
                  else (prefix @ ''/data_'' @ timestamp @ ''.csv'', to_csv_simple lib data,
                        ''text/csv''));
               s3_metadata = s3_metadata_of lib data format timestamp metadata
           in (case put_object out bucket_name s3_key
                      \<lparr>obj_body = content, obj_content_type = content_type,
                       obj_metadata = s3_metadata, obj_encryption = Some ''AES256''\<rparr> w1 of
                 (Inl e, w2) \<Rightarrow> (Inl e, w2)
               | (Inr u, w2) \<Rightarrow>
                   (Inr s3_key, write_metadata_file lib out bucket_name s3_key data metadata w2))
         else (Inl (ValueError (''Unsupported format: '' @ format)), w1))"

section \<open>The orchestrator (handler.py, utils.py)\<close>

record lambda_response =
  statusCode :: nat
  body :: string

text \<open>\<open>get_partition_path\<close>: \<open>year=YYYY/month=MM/day=DD\<close> of the current UTC date.\<close>

definition get_partition_path :: "outside \<Rightarrow> world \<Rightarrow> string \<times> world" where
  "get_partition_path out w =
     (let (now, w1) = datetime_now out w
      in (''year='' @ show_nat (dt_year now) @ ''/month='' @ zero_pad 2 (dt_month now)
          @ ''/day='' @ zero_pad 2 (dt_day now), w1))"

text \<open>\<open>str(e)\<close> of an exception, and \<open>len(v)\<close>.\<close>

fun exn_text :: "exn \<Rightarrow> string" where
  "exn_text (RequestException fault text) = text"
| "exn_text (ValueError text) = text"
| "exn_text (KeyError text) = text"
| "exn_text (AttributeError text) = text"
| "exn_text (TypeError text) = text"
| "exn_text (ClientError text) = text"

fun py_len :: "pyval \<Rightarrow> exn + nat" where
  "py_len (PList xs) = Inr (length xs)"
| "py_len (PStr s) = Inr (length s)"
| "py_len (PDict d) = Inr (length d)"
| "py_len v = Inl (TypeError (''object of type '' @ quoted (type_name v) @ '' has no len()''))"

text \<open>The two \<open>except\<close> clauses of the handler: a KeyError is reported as a configuration
  error, every other exception as a processing failure, both with status 500.\<close>

fun error_response :: "pylib \<Rightarrow> exn \<Rightarrow> lambda_response" where
  "error_response lib (KeyError text) =
     \<lparr>statusCode = 500,
      body = json_dumps lib (PDict [(''error'', PStr (''Configuration error: '' @ text))])\<rparr>"
| "error_response lib e =
     \<lparr>statusCode = 500,
      body = json_dumps lib (PDict [(''error'', PStr (''Processing failed: '' @ exn_text e))])\<rparr>"

text \<open>
  \<open>lambda_handler\<close>. Its inputs are the environment variables, the event and the
  \<open>aws_request_id\<close> of the context, if it has one. The bucket name is required; the event
  must be a dictionary; then the data are fetched, and a falsy result ends the run with
  status 204. Otherwise the records are processed, the metadata added, and the batch written
  under \<open>raw-data/\<close> and the partition path.
\<close>

definition lambda_handler ::
  "pylib \<Rightarrow> outside \<Rightarrow> (string \<rightharpoonup> string) \<Rightarrow> pyval \<Rightarrow> string option \<Rightarrow> world \<Rightarrow> lambda_response \<times> world" where
  "lambda_handler lib out environ event aws_request_id w =
     (let request_id = (case aws_request_id of Some r \<Rightarrow> r | None \<Rightarrow> ''local-test'');
          api_endpoint = (case environ ''API_ENDPOINT'' of
                            Some u \<Rightarrow> u
                          | None \<Rightarrow> ''https://jsonplaceholder.typicode.com/users'')
      in case environ ''DATA_BUCKET_NAME'' of
           None \<Rightarrow> (error_response lib (KeyError (quoted ''DATA_BUCKET_NAME'')), w)
         | Some bucket_name \<Rightarrow>
             let output_format = (case environ ''OUTPUT_FORMAT'' of
                                    Some f \<Rightarrow> f
                                  | None \<Rightarrow> ''parquet'')
             in (case event of
                  PDict ev \<Rightarrow>
                    (case fetch_data lib out api_endpoint [] (dict_get ev ''api_params'' (PDict [])) w of
                       (Inl e, w1) \<Rightarrow> (error_response lib e, w1)
                     | (Inr raw_data, w1) \<Rightarrow>
                         if \<not> truthy raw_data
                         then (\<lparr>statusCode = 204,
                                body = json_dumps lib
                                  (PDict [(''message'', PStr ''No data to process'')])\<rparr>, w1)
                         else
                           (case py_len raw_data of
                              Inl e \<Rightarrow> (error_response lib e, w1)
                            | Inr n \<Rightarrow>
                                (case py_iter raw_data of
                                   Inl e \<Rightarrow> (error_response lib e, w1)
                                 | Inr records \<Rightarrow>
                                     let (processed_data, w2) = process lib out records w1;
                                         (t, w3) = datetime_now out w2;
                                         (metadata, w4) =
                                           add_metadata out processed_data
                                             [(''source'', PStr api_endpoint),
                                              (''extraction_time'', PStr (isoformat t)),
                                              (''request_id'', PStr request_id)] w3;
                                         (partition_path, w5) = get_partition_path out w4
                                     in (case write_data lib out bucket_name processed_data
                                               (''raw-data/'' @ partition_path) output_format
                                               (Some metadata) w5 of
                                          (Inl e, w6) \<Rightarrow> (error_response lib e, w6)
                                        | (Inr s3_key, w6) \<Rightarrow>
                                            (\<lparr>statusCode = 200,
                                              body = json_dumps lib (PDict
                                                [(''message'', PStr ''Data extraction completed successfully''),
                                                 (''details'', PDict
                                                   [(''records_processed'', PInt (int (length processed_data))),
                                                    (''s3_location'', PStr (''s3://'' @ bucket_name @ ''/'' @ s3_key)),
                                                    (''format'', PStr output_format),
                                                    (''request_id'', PStr request_id)])])\<rparr>, w6)))))
                | other \<Rightarrow>
                    (error_response lib
                       (AttributeError (quoted (type_name other) @ '' object has no attribute ''
                          @ quoted ''get'')), w)))"

section \<open>Sample inputs\<close>

text \<open>
  An instance of the library parameters, an outside and a starting state, for running the
  model on concrete inputs. The sample clock stays within one second and advances by one
  microsecond at each reading; every request is answered by an empty list; no
  \<open>put_object\<close> fails.
\<close>

definition sample_lib :: pylib where
  "sample_lib =
     \<lparr>json_dumps = (\<lambda>v. ''json''),
      json_dumps_sort_keys = (\<lambda>v. ''json''),
      json_dumps_indent2 = (\<lambda>v. ''json''),
      md5_hexdigest = (\<lambda>s. ''d41d8cd98f00b204e9800998ecf8427e''),
      float_repr = (\<lambda>r. ''0.0''),
      container_repr = (\<lambda>v. ''[]''),
      encode_utf8 = (\<lambda>s. s),
      str_lower = (\<lambda>s. s),
      urljoin = (\<lambda>base url. base @ url),
      round_tie_up = (\<lambda>q. False)\<rparr>"

definition sample_out :: outside where
  "sample_out =
     \<lparr>clock = (\<lambda>n. \<lparr>dt_year = 2024, dt_month = 1, dt_day = 1, dt_hour = 12, dt_minute = 0,
                    dt_second = 0, dt_microsecond = n\<rparr>),
      clock_seconds = (\<lambda>n. of_nat n / 1000000),
      http_get = (\<lambda>n url params. GetReturns 200 [] (Inr (PList []))),
      random_unit = (\<lambda>n. 1 / 2),
      put_fault = (\<lambda>n. None)\<rparr>"

definition world0 :: world where
  "world0 = \<lparr>clock_reads = 0, http_calls = 0, random_draws = 0, put_calls = 0, sleeps = [],
             s3_objects = Map.empty\<rparr>"




section \<open>The tags of the caller\<close>

text \<open>
  The tags that the loop over the caller's metadata in \<open>write_data\<close> stores, in its order:
  for each entry whose key and value together are shorter than 1024 characters, the key with
  blanks replaced by underscores and in lower case, and the value as a string.
\<close>

definition tag_key :: "pylib \<Rightarrow> string \<Rightarrow> string" where
  "tag_key lib key = str_lower lib (map (\<lambda>c. if c = CHR '' '' then CHR ''_'' else c) key)"

definition caller_tags :: "pylib \<Rightarrow> pydict option \<Rightarrow> (string \<times> string) list" where
  "caller_tags lib metadata =
     map (\<lambda>(key, value). (tag_key lib key, py_str lib value))
       (filter (\<lambda>(key, value). length key + length (py_str lib value) < 1024)
          (case metadata of None \<Rightarrow> [] | Some m \<Rightarrow> m))"

section \<open>Clock readings and decimal strings\<close>

text \<open>
  The readings of \<open>datetime.now(UTC)\<close> are dates of the calendar; the years have four
  digits, as they have for every reading of a running clock, and \<open>%Y\<close> prints them so.
  Two readings are in the same second when they agree in all fields but the microseconds.
\<close>

definition valid_datetime :: "datetime \<Rightarrow> bool" where
  "valid_datetime t \<longleftrightarrow>
     1000 \<le> dt_year t \<and> dt_year t \<le> 9999 \<and> 1 \<le> dt_month t \<and> dt_month t \<le> 12
     \<and> 1 \<le> dt_day t \<and> dt_day t \<le> 31 \<and> dt_hour t < 24 \<and> dt_minute t < 60
     \<and> dt_second t < 60 \<and> dt_microsecond t < 1000000"

definition same_second :: "datetime \<Rightarrow> datetime \<Rightarrow> bool" where
  "same_second t1 t2 \<longleftrightarrow>
     dt_year t1 = dt_year t2 \<and> dt_month t1 = dt_month t2 \<and> dt_day t1 = dt_day t2
     \<and> dt_hour t1 = dt_hour t2 \<and> dt_minute t1 = dt_minute t2 \<and> dt_second t1 = dt_second t2"

text \<open>Reading a decimal string back, to show that the printed fields determine the
  numbers.\<close>

definition digit_val :: "char \<Rightarrow> nat" where
  "digit_val c = length (takeWhile (\<lambda>d. d \<noteq> c) ''0123456789'')"

definition read_nat :: "string \<Rightarrow> nat" where
  "read_nat s = foldl (\<lambda>acc c. 10 * acc + digit_val c) 0 s"

text \<open>A value is a container when it is a list or a dictionary.\<close>

fun is_container :: "pyval \<Rightarrow> bool" where
  "is_container (PList xs) = True"
| "is_container (PDict d) = True"
| "is_container v = False"

section \<open>Properties\<close>

subsection \<open>Dictionaries\<close>

lemma map_of_dict_set: "map_of (dict_set d k v) = (map_of d)(k \<mapsto> v)"
  by (induction d) (auto simp: fun_eq_iff)

lemma dict_of_items_snoc: "dict_of_items (items @ [(k, v)]) = dict_set (dict_of_items items) k v"
  by (simp add: dict_of_items_def)

lemma set_dict_set: "set (dict_set d k v) \<subseteq> insert (k, v) (set d)"
  by (induction d) (auto split: if_splits)

lemma set_foldl_dict_set:
  "set (foldl (\<lambda>d (k, v). dict_set d k v) d items) \<subseteq> set d \<union> set items"
proof (induction items arbitrary: d)
  case Nil
  then show ?case by simp
next
  case (Cons kv items)
  obtain k v where kv: "kv = (k, v)" by (cases kv)
  have "set (foldl (\<lambda>d (k, v). dict_set d k v) (dict_set d k v) items)
          \<subseteq> set (dict_set d k v) \<union> set items"
    by (rule Cons.IH)
  also have "\<dots> \<subseteq> set d \<union> set (kv # items)"
    using set_dict_set [of d k v] kv by auto
  finally show ?case by (simp add: kv)
qed

lemma set_dict_of_items: "set (dict_of_items items) \<subseteq> set items"
  using set_foldl_dict_set [of "[]" items] by (simp add: dict_of_items_def)

subsection \<open>The data processor\<close>

lemma show_int_1_2: "show_int 1 = ''1''" "show_int 2 = ''2''"
  by (simp_all add: show_int_def show_nat.simps digit_char_def)

text \<open>
  Claim C1. On the input \<open>[{"id": 1, "name": "Ana"}, {"id": 2, "name": "Luis"}]\<close>,
  \<open>process\<close> returns two records, each with \<open>processed_at\<close>, a quality score of 1 and
  \<open>is_complete\<close> true, and \<open>add_metadata\<close> with \<open>{"source": "test"}\<close> gives
  \<open>record_count\<close> 2 and \<open>source\<close> "test". The \<open>id\<close> of each record, however, is the
  integer of the source and not its string: the entries of the flattened record come after
  the \<open>id\<close> entry in the dictionary display and replace the coerced value.
\<close>

theorem process_example_ids_stay_integers:
  "process lib out
     [PDict [(''id'', PInt 1), (''name'', PStr ''Ana'')],
      PDict [(''id'', PInt 2), (''name'', PStr ''Luis'')]] w =
   ([[(''id'', PInt 1),
      (''created_at'', PStr (isoformat (clock out (clock_reads w)))),
      (''processed_at'', PStr (isoformat (clock out (Suc (clock_reads w))))),
      (''name'', PStr ''Ana''),
      (''data_quality_score'', PFloat 1),
      (''is_complete'', PBool True)],
     [(''id'', PInt 2),
      (''created_at'', PStr (isoformat (clock out (Suc (Suc (clock_reads w)))))),
      (''processed_at'', PStr (isoformat (clock out (Suc (Suc (Suc (clock_reads w))))))),
      (''name'', PStr ''Luis''),
      (''data_quality_score'', PFloat 1),
      (''is_complete'', PBool True)]],
    w\<lparr>clock_reads := clock_reads w + 4\<rparr>)
   \<and> fst (add_metadata out
          (fst (process lib out
             [PDict [(''id'', PInt 1), (''name'', PStr ''Ana'')],
              PDict [(''id'', PInt 2), (''name'', PStr ''Luis'')]] w))
          [(''source'', PStr ''test'')] w') =
     [(''source'', PStr ''test''),
      (''record_count'', PInt 2),
      (''processing_timestamp'', PStr (isoformat (clock out (clock_reads w')))),
      (''schema_version'', PStr ''1.0.0'')]"
  by (simp add: process_def Let_def datetime_now_def dict_of_items_def flatten_record_def
      new_key_def calculate_quality_score_def check_completeness_def dict_get_def
      py_round2_def show_int_1_2 add_metadata_def)

text \<open>
  Claim C2. Every record that \<open>process\<close> returns has a non-empty string \<open>id\<close> and
  non-null \<open>created_at\<close> and \<open>processed_at\<close> stamps of the processing time, and no value
  that is a mapping or a sequence. On the input
  \<open>[{"id": 7, "created_at": null}, {"id": ""}]\<close> the first record comes out with the
  integer 7 as its \<open>id\<close> and \<open>None\<close> as its \<open>created_at\<close>, the second with the empty
  string as its \<open>id\<close>: the entries of the flattened source record replace the standard
  fields written before them, and an empty source id is coerced to the empty string.
\<close>

theorem process_output_id_and_timestamps_overwritten:
  "process lib out
     [PDict [(''id'', PInt 7), (''created_at'', PNone)], PDict [(''id'', PStr [])]] w =
   ([[(''id'', PInt 7),
      (''created_at'', PNone),
      (''processed_at'', PStr (isoformat (clock out (Suc (clock_reads w))))),
      (''data_quality_score'', PFloat (1 / 2)),
      (''is_complete'', PBool True)],
     [(''id'', PStr []),
      (''created_at'', PStr (isoformat (clock out (Suc (Suc (clock_reads w)))))),
      (''processed_at'', PStr (isoformat (clock out (Suc (Suc (Suc (clock_reads w))))))),
      (''data_quality_score'', PFloat 0),
      (''is_complete'', PBool True)]],
    w\<lparr>clock_reads := clock_reads w + 4\<rparr>)"
  by (simp add: process_def Let_def datetime_now_def dict_of_items_def flatten_record_def
      new_key_def calculate_quality_score_def check_completeness_def dict_get_def
      py_round2_def)

text \<open>The part of that invariant which does hold: flattening is total. No value of a
  flattened record, and no value of a record returned by \<open>process\<close>, is a list or a
  dictionary.\<close>

lemma flatten_items_flat:
  "(k, v) \<in> set (flatten_items lib d parent_key sep) \<Longrightarrow> \<not> is_container v"
proof (induction lib d parent_key sep arbitrary: k v rule: flatten_items.induct)
  case (2 lib key d rest parent_key sep)
  then show ?case using set_dict_of_items by fastforce
qed auto

lemma flatten_record_flat:
  "(k, v) \<in> set (flatten_record lib d parent_key sep) \<Longrightarrow> \<not> is_container v"
  using flatten_items_flat set_dict_of_items unfolding flatten_record_def by blast

lemma process_record_flat:
  assumes "process_record lib out r w = (Inr (Some p), w')" and "(k, v) \<in> set p"
  shows "\<not> is_container v"
proof (cases r)
  case (PDict d)
  let ?items = "[(''id'', PStr (py_str lib (dict_get d ''id'' (PStr (generate_id lib d))))),
                (''created_at'', PStr (isoformat (clock out (clock_reads w)))),
                (''processed_at'', PStr (isoformat (clock out (Suc (clock_reads w)))))]
               @ flatten_record lib d [] ''_''
               @ [(''data_quality_score'', PFloat (calculate_quality_score lib d)),
                  (''is_complete'', PBool (check_completeness d))]"
  from assms(1) PDict have "p = dict_of_items ?items"
    by (simp add: datetime_now_def split: if_splits)
  with assms(2) have "(k, v) \<in> set ?items" using set_dict_of_items by blast
  then show ?thesis using flatten_record_flat by auto
qed (use assms in \<open>auto split: if_splits\<close>)

lemma process_loop_flat:
  assumes "process_loop lib out raw acc w = (res, w')" "p \<in> set res" "(k, v) \<in> set p"
    and "\<And>p k v. p \<in> set acc \<Longrightarrow> (k, v) \<in> set p \<Longrightarrow> \<not> is_container v"
  shows "\<not> is_container v"
  using assms
proof (induction raw arbitrary: acc w)
  case Nil
  then show ?case by auto
next
  case (Cons r raw)
  obtain x w1 where pr: "process_record lib out r w = (x, w1)"
    by (cases "process_record lib out r w")
  show ?case
  proof (cases x)
    case (Inl e)
    with Cons pr show ?thesis by auto
  next
    case (Inr o1)
    show ?thesis
    proof (cases o1)
      case None
      with Cons pr Inr show ?thesis by auto
    next
      case (Some q)
      have flatq: "\<And>k v. (k, v) \<in> set q \<Longrightarrow> \<not> is_container v"
        using process_record_flat pr Inr Some by blast
      show ?thesis
      proof (cases "q = []")
        case True
        with Cons pr Inr Some show ?thesis by auto
      next
        case False
        have "process_loop lib out raw (acc @ [q]) w1 = (res, w')"
          using Cons.prems(1) pr Inr Some False by simp
        moreover have "\<And>p k v. p \<in> set (acc @ [q]) \<Longrightarrow> (k, v) \<in> set p \<Longrightarrow> \<not> is_container v"
          using Cons.prems(4) flatq by auto
        ultimately show ?thesis using Cons.IH Cons.prems(2,3) by blast
      qed
    qed
  qed
qed

lemma process_output_flat:
  assumes "p \<in> set (fst (process lib out raw_data w))" and "(k, v) \<in> set p"
  shows "\<not> is_container v"
proof -
  obtain res w' where "process_loop lib out raw_data [] w = (res, w')"
    by (cases "process_loop lib out raw_data [] w")
  with assms show ?thesis
    using process_loop_flat [of lib out raw_data "[]" w res w' p k v] by (simp add: process_def)
qed

subsection \<open>The quality score\<close>

lemma py_round2_bounds:
  assumes "0 \<le> q" "q \<le> 1"
  shows "0 \<le> py_round2 lib q" "py_round2 lib q \<le> 1"
    "\<bar>py_round2 lib q - q\<bar> \<le> 1 / 200"
    "\<exists>k::int. py_round2 lib q = of_int k / 100"
proof -
  define n where "n = \<lfloor>q * 100\<rfloor>"
  define frac where "frac = q * 100 - of_int n"
  have n0: "0 \<le> n" using assms(1) by (simp add: n_def)
  have n100: "n \<le> 100" using assms(2) by (simp add: n_def floor_le_iff)
  have f0: "0 \<le> frac" by (simp add: frac_def n_def)
  have f1: "frac < 1" unfolding frac_def n_def by linarith
  have q: "q = (of_int n + frac) / 100" by (simp add: frac_def)
  have nlt: "frac \<noteq> 0 \<Longrightarrow> n \<le> 99"
  proof -
    assume "frac \<noteq> 0"
    with f0 have "0 < frac" by simp
    then have "of_int n < q * 100" by (simp add: frac_def)
    also have "\<dots> \<le> 100" using assms(2) by simp
    finally have "n < 100" by simp
    then show ?thesis by simp
  qed
  have r: "py_round2 lib q =
     (if frac < 1 / 2 then of_int n / 100
      else if 1 / 2 < frac then of_int (n + 1) / 100
      else if round_tie_up lib q then of_int (n + 1) / 100 else of_int n / 100)"
    by (simp add: py_round2_def Let_def n_def frac_def)
  show "0 \<le> py_round2 lib q" using n0 by (simp add: r)
  show "py_round2 lib q \<le> 1" using n100 nlt f0 by (auto simp: r)
  show "\<bar>py_round2 lib q - q\<bar> \<le> 1 / 200"
    using f0 f1 by (auto simp: r q[symmetric] frac_def field_simps abs_if)
  show "\<exists>k::int. py_round2 lib q = of_int k / 100"
    unfolding r by (auto intro: exI[of _ n] exI[of _ "n + 1"])
qed

lemma filled_le: "length (filter P (map snd d)) \<le> length d"
  using length_filter_le [of P "map snd d"] by simp

lemma map_of_dict_of_items_last2:
  "k1 \<noteq> k2 \<Longrightarrow> map_of (dict_of_items (items @ [(k1, v1), (k2, v2)])) k1 = Some v1"
proof -
  assume ne: "k1 \<noteq> k2"
  have "dict_of_items (items @ [(k1, v1), (k2, v2)])
        = dict_set (dict_set (dict_of_items items) k1 v1) k2 v2"
    by (simp add: dict_of_items_def)
  then show ?thesis using ne by (simp add: map_of_dict_set)
qed

lemma process_record_score:
  assumes "d \<noteq> []"
  shows "\<exists>p w'. process_record lib out (PDict d) w = (Inr (Some p), w')
           \<and> map_of p ''data_quality_score'' = Some (PFloat (calculate_quality_score lib d))"
proof -
  let ?pre = "[(''id'', PStr (py_str lib (dict_get d ''id'' (PStr (generate_id lib d))))),
               (''created_at'', PStr (isoformat (clock out (clock_reads w)))),
               (''processed_at'', PStr (isoformat (clock out (Suc (clock_reads w)))))]
              @ flatten_record lib d [] ''_''"
  have "process_record lib out (PDict d) w =
          (Inr (Some (dict_of_items (?pre @
             [(''data_quality_score'', PFloat (calculate_quality_score lib d)),
              (''is_complete'', PBool (check_completeness d))]))),
           w\<lparr>clock_reads := Suc (Suc (clock_reads w))\<rparr>)"
    using assms by (simp add: datetime_now_def)
  moreover have "map_of (dict_of_items (?pre @
             [(''data_quality_score'', PFloat (calculate_quality_score lib d)),
              (''is_complete'', PBool (check_completeness d))])) ''data_quality_score''
        = Some (PFloat (calculate_quality_score lib d))"
    by (rule map_of_dict_of_items_last2) simp
  ultimately show ?thesis by blast
qed

text \<open>
  Claim C6. The quality score of a record is the number of its values that are neither
  \<open>None\<close> nor the empty string, divided by the number of its fields (counted before
  flattening) and rounded to two decimal places: it is a whole number of hundredths, at most
  half a hundredth away from the quotient, and lies between 0 and 1. A record without fields
  scores 0, with no division. The score is the value that the processed record carries under
  \<open>data_quality_score\<close>.
\<close>

theorem quality_score_fraction_rounded:
  "calculate_quality_score lib d =
     (if d = [] then 0
      else py_round2 lib (of_nat (length (filter (\<lambda>v. v \<noteq> PNone \<and> v \<noteq> PStr []) (map snd d)))
                          / of_nat (length d)))
   \<and> 0 \<le> calculate_quality_score lib d \<and> calculate_quality_score lib d \<le> 1
   \<and> (\<exists>k::int. calculate_quality_score lib d = of_int k / 100)
   \<and> \<bar>calculate_quality_score lib d
        - (if d = [] then 0
           else of_nat (length (filter (\<lambda>v. v \<noteq> PNone \<and> v \<noteq> PStr []) (map snd d)))
                / of_nat (length d))\<bar> \<le> 1 / 200
   \<and> calculate_quality_score lib [] = 0
   \<and> (d \<noteq> [] \<longrightarrow>
        (\<exists>p w'. process_record lib out (PDict d) w = (Inr (Some p), w')
           \<and> map_of p ''data_quality_score'' = Some (PFloat (calculate_quality_score lib d))))"
proof (cases "d = []")
  case True
  then show ?thesis by (simp add: calculate_quality_score_def)
next
  case False
  let ?q = "of_nat (length (filter (\<lambda>v. v \<noteq> PNone \<and> v \<noteq> PStr []) (map snd d)))
            / (of_nat (length d) :: rat)"
  have eq: "calculate_quality_score lib d = py_round2 lib ?q"
    using False by (simp add: calculate_quality_score_def Let_def)
  have q0: "0 \<le> ?q" by simp
  have q1: "?q \<le> 1" using False filled_le [of _ d] by (simp add: divide_le_eq_1)
  note b = py_round2_bounds [OF q0 q1, of lib]
  show ?thesis
    using False b process_record_score [OF False, of lib out w]
    by (simp add: eq calculate_quality_score_def)
qed

theorem quality_score_fraction_rounded_witness:
  "calculate_quality_score sample_lib [(''a'', PInt 1), (''b'', PNone)] = 1 / 2
   \<and> (\<exists>p w'. process_record sample_lib sample_out (PDict [(''a'', PInt 1), (''b'', PNone)]) world0
                 = (Inr (Some p), w')
          \<and> map_of p ''data_quality_score'' = Some (PFloat (1 / 2)))"
proof -
  have s: "calculate_quality_score sample_lib [(''a'', PInt 1), (''b'', PNone)] = 1 / 2"
    by (simp add: calculate_quality_score_def py_round2_def)
  show ?thesis
    using quality_score_fraction_rounded
            [of sample_lib "[(''a'', PInt 1), (''b'', PNone)]" sample_out world0]
    unfolding s by simp
qed

subsection \<open>Empty records\<close>

lemma process_loop_filter:
  "process_loop lib out (filter (\<lambda>r. r \<noteq> PDict []) raw) acc w = process_loop lib out raw acc w"
  by (induction raw arbitrary: acc w) (auto split: prod.splits sum.splits option.splits)

lemma process_loop_empties: "process_loop lib out (replicate n (PDict [])) acc w = (acc, w)"
  by (induction n) auto

text \<open>
  Claim C10. \<open>process\<close> drops every empty raw record without an error: for an empty mapping
  \<open>_process_record\<close> returns \<open>None\<close> and leaves the state alone, so the result and the state
  of \<open>process\<close> are those of the same list without its empty mappings, and a list of empty
  mappings only gives the empty list.
\<close>

theorem process_drops_empty_records:
  "process lib out (filter (\<lambda>r. r \<noteq> PDict []) raw_data) w = process lib out raw_data w
   \<and> process lib out (replicate n (PDict [])) w = ([], w)
   \<and> process_record lib out (PDict []) w = (Inr None, w)"
  by (simp add: process_def process_loop_filter process_loop_empties)

theorem process_drops_empty_records_witness:
  "process sample_lib sample_out [PDict [], PDict [(''id'', PInt 1)], PDict []] world0
     = process sample_lib sample_out [PDict [(''id'', PInt 1)]] world0
   \<and> process sample_lib sample_out [PDict [], PDict []] world0 = ([], world0)"
  using process_drops_empty_records
          [of sample_lib sample_out "[PDict [], PDict [(''id'', PInt 1)], PDict []]" world0 2]
  by (simp add: numeral_2_eq_2)

subsection \<open>Decimal strings and object keys\<close>

lemma digit_val_digit_char: "n < 10 \<Longrightarrow> digit_val (digit_char n) = n"
proof -
  assume small: "n < 10"
  have "list_all (\<lambda>k. digit_val (digit_char k) = k) [0..<10]"
    by code_simp
  with small show ?thesis by (simp add: list_all_iff)
qed

lemma read_nat_snoc: "read_nat (s @ [c]) = 10 * read_nat s + digit_val c"
  by (simp add: read_nat_def)

lemma read_nat_show_nat: "read_nat (show_nat n) = n"
proof (induction n rule: show_nat.induct)
  case (1 n)
  show ?case
  proof (cases "n < 10")
    case True
    then show ?thesis
      using digit_val_digit_char [of n] by (simp add: show_nat.simps [of n] read_nat_def)
  next
    case False
    then have "read_nat (show_nat n) = 10 * read_nat (show_nat (n div 10)) + digit_val (digit_char (n mod 10))"
      by (simp add: show_nat.simps [of n] read_nat_snoc)
    also have "\<dots> = 10 * (n div 10) + n mod 10"
      using 1 False digit_val_digit_char [of "n mod 10"] by simp
    finally show ?thesis by simp
  qed
qed

lemma read_nat_zeros: "read_nat (replicate k CHR ''0'' @ s) = read_nat s"
  by (induction k) (simp_all add: read_nat_def digit_val_def)

lemma read_nat_zero_pad: "read_nat (zero_pad w n) = n"
  by (simp add: zero_pad_def read_nat_zeros read_nat_show_nat)

lemma length_show_nat: "n < 10 ^ k \<Longrightarrow> 0 < k \<Longrightarrow> length (show_nat n) \<le> k"
proof (induction n arbitrary: k rule: show_nat.induct)
  case (1 n)
  show ?case
  proof (cases "n < 10")
    case True
    then show ?thesis using "1.prems" by (simp add: show_nat.simps [of n])
  next
    case False
    obtain j where k: "k = Suc j" using "1.prems"(2) by (cases k) auto
    have "j \<noteq> 0" using False "1.prems"(1) k by (cases j) auto
    moreover have "n div 10 < 10 ^ j" using "1.prems"(1) k by (simp add: less_mult_imp_div_less mult.commute)
    ultimately have "length (show_nat (n div 10)) \<le> j" using "1.IH" False by simp
    then show ?thesis using False k by (simp add: show_nat.simps [of n])
  qed
qed

lemma length_zero_pad: "n < 10 ^ k \<Longrightarrow> 0 < k \<Longrightarrow> length (zero_pad k n) = k"
  using length_show_nat [of n k] by (simp add: zero_pad_def)

lemma zero_pad_inj: "zero_pad w a = zero_pad w b \<Longrightarrow> a = b"
  using read_nat_zero_pad by metis

lemma strftime_key_eq_iff:
  assumes "valid_datetime t1" "valid_datetime t2"
  shows "strftime_key t1 = strftime_key t2 \<longleftrightarrow> same_second t1 t2"
proof
  assume "same_second t1 t2"
  then show "strftime_key t1 = strftime_key t2" by (simp add: same_second_def strftime_key_def)
next
  assume eq: "strftime_key t1 = strftime_key t2"
  have l4: "length (zero_pad 4 (dt_year t1)) = 4" "length (zero_pad 4 (dt_year t2)) = 4"
    using assms by (simp_all add: valid_datetime_def length_zero_pad)
  have l2: "length (zero_pad 2 (dt_month t1)) = 2" "length (zero_pad 2 (dt_month t2)) = 2"
    "length (zero_pad 2 (dt_day t1)) = 2" "length (zero_pad 2 (dt_day t2)) = 2"
    "length (zero_pad 2 (dt_hour t1)) = 2" "length (zero_pad 2 (dt_hour t2)) = 2"
    "length (zero_pad 2 (dt_minute t1)) = 2" "length (zero_pad 2 (dt_minute t2)) = 2"
    using assms by (simp_all add: valid_datetime_def length_zero_pad)
  from eq have "zero_pad 4 (dt_year t1) = zero_pad 4 (dt_year t2)
      \<and> zero_pad 2 (dt_month t1) = zero_pad 2 (dt_month t2)
      \<and> zero_pad 2 (dt_day t1) = zero_pad 2 (dt_day t2)
      \<and> zero_pad 2 (dt_hour t1) = zero_pad 2 (dt_hour t2)
      \<and> zero_pad 2 (dt_minute t1) = zero_pad 2 (dt_minute t2)
      \<and> zero_pad 2 (dt_second t1) = zero_pad 2 (dt_second t2)"
    unfolding strftime_key_def using l4 l2 by simp
  then show "same_second t1 t2"
    unfolding same_second_def using zero_pad_inj by blast
qed

lemma write_data_supported:
  assumes "format \<in> {''json'', ''parquet'', ''csv''}" and "put_fault out (put_calls w) = None"
  shows "fst (write_data lib out bucket data prefix format metadata w) =
           Inr (prefix @ ''/data_'' @ strftime_key (clock out (clock_reads w))
                @ (if format = ''csv'' then ''.csv'' else ''.json''))"
  using assms
  by (auto simp: write_data_def datetime_now_def put_object_def Let_def)

lemma write_metadata_file_keeps:
  "key \<noteq> data_key @ ''.metadata.json'' \<Longrightarrow>
   s3_objects (write_metadata_file lib out bucket data_key data metadata w) (bucket', key)
     = s3_objects w (bucket', key)"
  by (simp add: write_metadata_file_def put_object_def datetime_now_def Let_def split: option.splits)

lemma write_data_stores:
  assumes "format \<in> {''json'', ''parquet'', ''csv''}" and "put_fault out (put_calls w) = None"
  shows "s3_objects (snd (write_data lib out bucket data prefix format metadata w))
           (bucket, prefix @ ''/data_'' @ strftime_key (clock out (clock_reads w))
                @ (if format = ''csv'' then ''.csv'' else ''.json''))
         = Some \<lparr>obj_body = (if format = ''csv'' then to_csv_simple lib data else to_json lib data),
                 obj_content_type = (if format = ''csv'' then ''text/csv'' else ''application/json''),
                 obj_metadata = s3_metadata_of lib data format
                                  (strftime_key (clock out (clock_reads w))) metadata,
                 obj_encryption = Some ''AES256''\<rparr>"
  using assms
  by (auto simp: write_data_def datetime_now_def put_object_def Let_def write_metadata_file_keeps)

lemma sample_key: "strftime_key (clock sample_out n) = ''20240101_120000''"
  by (simp add: sample_out_def strftime_key_def zero_pad_def show_nat.simps digit_char_def)

lemma sample_valid: "valid_datetime (clock sample_out n) = (n < 1000000)"
  by (simp add: sample_out_def valid_datetime_def)

subsection \<open>The object writer\<close>

text \<open>
  Claim C3, as amended. For a supported format, \<open>write_data\<close> returns the key
  \<open>{prefix}/data_{timestamp}.{extension}\<close>, where the timestamp is the clock reading printed
  as \<open>yyyyMMdd_HHmmss\<close> and the extension is \<open>csv\<close> for csv and \<open>json\<close> for json and
  parquet. The timestamp stops at the second: two writes with the same prefix and format
  return the same key exactly when their clock readings lie in the same second, whatever
  their microseconds. The object stored under the key is the one of this write, whatever
  was stored there before.
\<close>

theorem write_data_key_second_granularity:
  assumes "format \<in> {''json'', ''parquet'', ''csv''}"
    and "valid_datetime (clock out (clock_reads w1))" and "valid_datetime (clock out (clock_reads w2))"
    and "put_fault out (put_calls w1) = None" and "put_fault out (put_calls w2) = None"
  shows "fst (write_data lib out bucket data1 prefix format md1 w1) =
           Inr (prefix @ ''/data_'' @ strftime_key (clock out (clock_reads w1))
                @ (if format = ''csv'' then ''.csv'' else ''.json''))
       \<and> (fst (write_data lib out bucket data1 prefix format md1 w1)
            = fst (write_data lib out bucket data2 prefix format md2 w2)
          \<longleftrightarrow> same_second (clock out (clock_reads w1)) (clock out (clock_reads w2)))
       \<and> s3_objects (snd (write_data lib out bucket data1 prefix format md1 w1))
            (bucket, prefix @ ''/data_'' @ strftime_key (clock out (clock_reads w1))
                @ (if format = ''csv'' then ''.csv'' else ''.json''))
          = Some \<lparr>obj_body = (if format = ''csv'' then to_csv_simple lib data1 else to_json lib data1),
                  obj_content_type = (if format = ''csv'' then ''text/csv'' else ''application/json''),
                  obj_metadata = s3_metadata_of lib data1 format
                                   (strftime_key (clock out (clock_reads w1))) md1,
                  obj_encryption = Some ''AES256''\<rparr>"
proof -
  note k1 = write_data_supported [OF assms(1) assms(4), of lib bucket data1 prefix md1]
  note k2 = write_data_supported [OF assms(1) assms(5), of lib bucket data2 prefix md2]
  have "fst (write_data lib out bucket data1 prefix format md1 w1)
            = fst (write_data lib out bucket data2 prefix format md2 w2)
        \<longleftrightarrow> strftime_key (clock out (clock_reads w1)) = strftime_key (clock out (clock_reads w2))"
    unfolding k1 k2 by simp
  then show ?thesis
    using k1 write_data_stores [OF assms(1) assms(4), of lib bucket data1 prefix md1]
      strftime_key_eq_iff [OF assms(2) assms(3)]
    by simp
qed

theorem write_data_key_second_granularity_witness:
  "fst (write_data sample_lib sample_out ''bucket'' [] ''raw-data'' ''csv'' None world0)
     = Inr ''raw-data/data_20240101_120000.csv''
   \<and> fst (write_data sample_lib sample_out ''bucket'' [] ''raw-data'' ''csv'' None world0)
     = fst (write_data sample_lib sample_out ''bucket'' [[]] ''raw-data'' ''csv'' None (world0\<lparr>clock_reads := 5\<rparr>))"
proof -
  have a: "''csv'' \<in> {''json'', ''parquet'', ''csv''}" by simp
  have v: "valid_datetime (clock sample_out (clock_reads world0))"
    "valid_datetime (clock sample_out (clock_reads (world0\<lparr>clock_reads := 5\<rparr>)))"
    by (simp_all add: sample_valid world0_def)
  have p: "put_fault sample_out (put_calls world0) = None"
    "put_fault sample_out (put_calls (world0\<lparr>clock_reads := 5\<rparr>)) = None"
    by (simp_all add: sample_out_def)
  have s: "same_second (clock sample_out (clock_reads world0)) (clock sample_out (clock_reads (world0\<lparr>clock_reads := 5\<rparr>)))"
    by (simp add: same_second_def sample_out_def)
  have k: "strftime_key (clock sample_out (clock_reads w)) = ''20240101_120000''" for w
    by (rule sample_key)
  from write_data_key_second_granularity [OF a v p, of sample_lib "''bucket''" "[]" "''raw-data''" None "[[]]" None] s
  show ?thesis unfolding k by auto
qed

text \<open>
  Claim C3 as stated fails: two writes in the same second whose readings differ in the
  microseconds get the same key, and the second replaces the object of the first. On the
  sample clock the first write reads the clock at 12:00:00.000000 (and once more for the
  metadata file), the second at 12:00:00.000002.
\<close>

theorem write_data_same_second_same_key:
  "fst (write_data sample_lib sample_out ''bucket'' [[(''id'', PInt 1)]] ''raw-data'' ''json'' None world0)
     = Inr ''raw-data/data_20240101_120000.json''
   \<and> clock_reads (snd (write_data sample_lib sample_out ''bucket'' [[(''id'', PInt 1)]] ''raw-data'' ''json'' None world0)) = 2
   \<and> dt_microsecond (clock sample_out 0) = 0 \<and> dt_microsecond (clock sample_out 2) = 2
   \<and> same_second (clock sample_out 0) (clock sample_out 2)
   \<and> fst (write_data sample_lib sample_out ''bucket'' [[(''id'', PInt 1)], [(''id'', PInt 2)]] ''raw-data'' ''json'' None
            (snd (write_data sample_lib sample_out ''bucket'' [[(''id'', PInt 1)]] ''raw-data'' ''json'' None world0)))
     = Inr ''raw-data/data_20240101_120000.json''
   \<and> map_option obj_metadata
        (s3_objects (snd (write_data sample_lib sample_out ''bucket'' [[(''id'', PInt 1)]] ''raw-data'' ''json'' None world0))
           (''bucket'', ''raw-data/data_20240101_120000.json''))
     = Some [(''record_count'', ''1''), (''format'', ''json''), (''timestamp'', ''20240101_120000'')]
   \<and> map_option obj_metadata
        (s3_objects (snd (write_data sample_lib sample_out ''bucket'' [[(''id'', PInt 1)], [(''id'', PInt 2)]] ''raw-data'' ''json'' None
            (snd (write_data sample_lib sample_out ''bucket'' [[(''id'', PInt 1)]] ''raw-data'' ''json'' None world0))))
           (''bucket'', ''raw-data/data_20240101_120000.json''))
     = Some [(''record_count'', ''2''), (''format'', ''json''), (''timestamp'', ''20240101_120000'')]"
proof -
  have o: "put_fault sample_out = (\<lambda>n. None)" "clock_reads world0 = 0"
    by (simp_all add: sample_out_def world0_def)
  have n: "show_nat (Suc 0) = ''1''" "show_nat (Suc (Suc 0)) = ''2''"
    by (simp_all add: show_nat.simps digit_char_def)
  have w1: "write_data sample_lib sample_out ''bucket'' [[(''id'', PInt 1)]] ''raw-data'' ''json'' None world0
     = (Inr ''raw-data/data_20240101_120000.json'',
        world0\<lparr>clock_reads := 2, put_calls := 2,
          s3_objects := (s3_objects world0)
            ((''bucket'', ''raw-data/data_20240101_120000.json'') \<mapsto>
               \<lparr>obj_body = ''json'', obj_content_type = ''application/json'',
                obj_metadata = [(''record_count'', ''1''), (''format'', ''json''), (''timestamp'', ''20240101_120000'')],
                obj_encryption = Some ''AES256''\<rparr>,
             (''bucket'', ''raw-data/data_20240101_120000.json.metadata.json'') \<mapsto>
               \<lparr>obj_body = ''json'', obj_content_type = ''application/json'',
                obj_metadata = [], obj_encryption = None\<rparr>)\<rparr>)"
    by (simp add: write_data_def datetime_now_def sample_key put_object_def o Let_def
        s3_metadata_of_def to_json_def write_metadata_file_def n world0_def sample_lib_def)
  show ?thesis
    unfolding w1
    by (simp add: write_data_def datetime_now_def sample_key put_object_def o Let_def
        s3_metadata_of_def to_json_def write_metadata_file_def n world0_def sample_lib_def
        same_second_def, simp add: sample_out_def)
qed

text \<open>
  Claim C8. With a format other than json, csv and parquet, \<open>write_data\<close> raises the error
  for an unsupported format (a ValueError naming the format) after reading the clock and
  before any \<open>put_object\<close>: no data object and no metadata object is stored.
\<close>

theorem write_data_unsupported_format:
  "format \<notin> {''json'', ''csv'', ''parquet''} \<Longrightarrow>
   write_data lib out bucket data prefix format metadata w
     = (Inl (ValueError (''Unsupported format: '' @ format)), w\<lparr>clock_reads := Suc (clock_reads w)\<rparr>)
   \<and> s3_objects (snd (write_data lib out bucket data prefix format metadata w)) = s3_objects w
   \<and> put_calls (snd (write_data lib out bucket data prefix format metadata w)) = put_calls w"
  by (simp add: write_data_def datetime_now_def)

theorem write_data_unsupported_format_witness:
  "write_data sample_lib sample_out ''bucket'' [[(''id'', PInt 1)]] ''raw-data'' ''xml'' None world0
     = (Inl (ValueError ''Unsupported format: xml''), world0\<lparr>clock_reads := 1\<rparr>)
   \<and> s3_objects (snd (write_data sample_lib sample_out ''bucket'' [[(''id'', PInt 1)]] ''raw-data'' ''xml'' None world0)) = Map.empty"
  using write_data_unsupported_format [of "''xml''" sample_lib sample_out "''bucket''" "[[(''id'', PInt 1)]]" "''raw-data''" None world0]
  by (simp add: world0_def)

lemma foldl_tags:
  "foldl (\<lambda>s3_metadata (key, value).
              if length key + length (py_str lib value) < 1024
              then dict_set s3_metadata
                     (str_lower lib (map (\<lambda>c. if c = CHR '' '' then CHR ''_'' else c) key))
                     (py_str lib value)
              else s3_metadata) d m
   = foldl (\<lambda>d (k, v). dict_set d k v) d
       (map (\<lambda>(key, value). (tag_key lib key, py_str lib value))
          (filter (\<lambda>(key, value). length key + length (py_str lib value) < 1024) m))"
  by (induction m arbitrary: d) (auto simp: tag_key_def)

lemma s3_metadata_of_tags:
  "s3_metadata_of lib data format timestamp metadata =
     foldl (\<lambda>d (k, v). dict_set d k v)
       [(''record_count'', show_nat (length data)),
        (''format'', if format = ''parquet'' then ''json'' else format),
        (''timestamp'', timestamp)]
       (caller_tags lib metadata)"
  by (simp add: s3_metadata_of_def caller_tags_def foldl_tags)

lemma map_of_foldl_dict_set:
  "map_of (foldl (\<lambda>d (k, v). dict_set d k v) d xs) k =
     (case map_of (rev xs) k of None \<Rightarrow> map_of d k | Some v \<Rightarrow> Some v)"
proof (induction xs rule: rev_induct)
  case Nil
  then show ?case by simp
next
  case (snoc x xs)
  obtain k' v' where x: "x = (k', v')" by (cases x)
  show ?case using snoc by (simp add: x map_of_dict_set)
qed

lemma format_tag:
  "map_of (s3_metadata_of lib data format timestamp metadata) ''format'' =
     Some (case map_of (rev (caller_tags lib metadata)) ''format'' of
             None \<Rightarrow> (if format = ''parquet'' then ''json'' else format)
           | Some v \<Rightarrow> v)"
  by (simp add: s3_metadata_of_tags map_of_foldl_dict_set split: option.splits)

text \<open>
  Claim C7, as amended. \<open>write_data\<close> with the format parquet does what it does with the
  format json, for every record list, prefix and metadata: result and final state of the two
  calls are equal. The key ends in \<open>.json\<close>, the body is the UTF-8 encoding of
  \<open>json.dumps(data, indent=2, default=str)\<close>, the content type is \<open>application/json\<close>,
  and the tags are the same. The \<open>format\<close> tag reads json unless the caller's metadata
  has an entry that is stored under the key \<open>format\<close>; then the tag is the value of the
  last such entry, in both calls.
\<close>

theorem write_data_parquet_is_json:
  "write_data lib out bucket data prefix ''parquet'' metadata w
     = write_data lib out bucket data prefix ''json'' metadata w
   \<and> s3_metadata_of lib data ''parquet'' timestamp metadata
     = s3_metadata_of lib data ''json'' timestamp metadata
   \<and> map_of (s3_metadata_of lib data ''parquet'' timestamp metadata) ''format'' =
       Some (case map_of (rev (caller_tags lib metadata)) ''format'' of
               None \<Rightarrow> ''json''
             | Some v \<Rightarrow> v)
   \<and> (put_fault out (put_calls w) = None \<longrightarrow>
        fst (write_data lib out bucket data prefix ''parquet'' metadata w)
          = Inr (prefix @ ''/data_'' @ strftime_key (clock out (clock_reads w)) @ ''.json'')
        \<and> s3_objects (snd (write_data lib out bucket data prefix ''parquet'' metadata w))
            (bucket, prefix @ ''/data_'' @ strftime_key (clock out (clock_reads w)) @ ''.json'')
          = Some \<lparr>obj_body = encode_utf8 lib (json_dumps_indent2 lib (PList (map PDict data))),
                  obj_content_type = ''application/json'',
                  obj_metadata = s3_metadata_of lib data ''json''
                                   (strftime_key (clock out (clock_reads w))) metadata,
                  obj_encryption = Some ''AES256''\<rparr>)"
proof -
  have m: "s3_metadata_of lib data ''parquet'' ts metadata = s3_metadata_of lib data ''json'' ts metadata" for ts
    by (simp add: s3_metadata_of_def)
  have e: "write_data lib out bucket data prefix ''parquet'' metadata w
     = write_data lib out bucket data prefix ''json'' metadata w"
    by (simp add: write_data_def m)
  have f: "map_of (s3_metadata_of lib data ''parquet'' timestamp metadata) ''format'' =
       Some (case map_of (rev (caller_tags lib metadata)) ''format'' of
               None \<Rightarrow> ''json''
             | Some v \<Rightarrow> v)"
    by (simp add: format_tag)
  have p: "''parquet'' \<in> {''json'', ''parquet'', ''csv''}" by simp
  have k: "put_fault out (put_calls w) = None \<Longrightarrow>
        fst (write_data lib out bucket data prefix ''parquet'' metadata w)
          = Inr (prefix @ ''/data_'' @ strftime_key (clock out (clock_reads w)) @ ''.json'')"
    using write_data_supported [OF p, of out w lib bucket data prefix metadata] by simp
  have s: "put_fault out (put_calls w) = None \<Longrightarrow>
        s3_objects (snd (write_data lib out bucket data prefix ''parquet'' metadata w))
            (bucket, prefix @ ''/data_'' @ strftime_key (clock out (clock_reads w)) @ ''.json'')
          = Some \<lparr>obj_body = encode_utf8 lib (json_dumps_indent2 lib (PList (map PDict data))),
                  obj_content_type = ''application/json'',
                  obj_metadata = s3_metadata_of lib data ''json''
                                   (strftime_key (clock out (clock_reads w))) metadata,
                  obj_encryption = Some ''AES256''\<rparr>"
    using write_data_stores [OF p, of out w lib bucket data prefix metadata]
    by (simp add: m to_json_def)
  show ?thesis using e m f k s by blast
qed

theorem write_data_parquet_is_json_witness:
  "write_data sample_lib sample_out ''bucket'' [[(''id'', PInt 1)]] ''raw-data'' ''parquet''
       (Some [(''source'', PStr ''test'')]) world0
     = write_data sample_lib sample_out ''bucket'' [[(''id'', PInt 1)]] ''raw-data'' ''json''
         (Some [(''source'', PStr ''test'')]) world0
   \<and> fst (write_data sample_lib sample_out ''bucket'' [[(''id'', PInt 1)]] ''raw-data'' ''parquet''
            (Some [(''source'', PStr ''test'')]) world0)
      = Inr ''raw-data/data_20240101_120000.json''
   \<and> map_of (s3_metadata_of sample_lib [[(''id'', PInt 1)]] ''parquet'' ''20240101_120000''
               (Some [(''source'', PStr ''test'')])) ''format'' = Some ''json''"
proof -
  have p: "put_fault sample_out (put_calls world0) = None"
    by (simp add: sample_out_def)
  have k: "strftime_key (clock sample_out (clock_reads world0)) = ''20240101_120000''"
    by (rule sample_key)
  have t: "map_of (rev (caller_tags sample_lib (Some [(''source'', PStr ''test'')]))) ''format'' = None"
    by (simp add: caller_tags_def tag_key_def sample_lib_def)
  from write_data_parquet_is_json [where lib = sample_lib and out = sample_out and bucket = "''bucket''"
      and data = "[[(''id'', PInt 1)]]" and prefix = "''raw-data''"
      and metadata = "Some [(''source'', PStr ''test'')]"
      and w = world0 and timestamp = "''20240101_120000''"]
  show ?thesis unfolding k t using p by auto
qed

text \<open>
  Claim C7 as stated fails for a caller whose metadata has the key \<open>format\<close>: the loop
  over the metadata runs after the fixed tags are set and replaces the \<open>format\<close> tag, so
  with \<open>{"format": "parquet"}\<close> the stored tag reads parquet and not json.
\<close>

theorem write_data_format_tag_of_caller:
  "map_option obj_metadata
     (s3_objects (snd (write_data sample_lib sample_out ''bucket'' [[(''id'', PInt 1)]] ''raw-data''
                         ''parquet'' (Some [(''format'', PStr ''parquet'')]) world0))
        (''bucket'', ''raw-data/data_20240101_120000.json''))
   = Some [(''record_count'', ''1''), (''format'', ''parquet''), (''timestamp'', ''20240101_120000'')]"
proof -
  have o: "put_fault sample_out = (\<lambda>n. None)" "clock_reads world0 = 0"
    by (simp_all add: sample_out_def world0_def)
  have n: "show_nat (Suc 0) = ''1''"
    by (simp add: show_nat.simps digit_char_def)
  show ?thesis
    by (simp add: write_data_def datetime_now_def sample_key put_object_def o Let_def
        s3_metadata_of_def to_json_def write_metadata_file_def n world0_def sample_lib_def)
qed

subsection \<open>The API client\<close>

text \<open>An attempt makes one request and changes nothing else; what it returns does not
  depend on the clock.\<close>

lemma fetch_data_attempt_state:
  "snd (fetch_data_attempt lib out base_url endpoint params w) = w\<lparr>http_calls := Suc (http_calls w)\<rparr>"
  by (simp add: fetch_data_attempt_def Let_def split: http_result.splits sum.splits)


lemma fetch_data_unfold:
  "fetch_data lib out base_url endpoint params w =
     on_exception_loop out 3 60 (fetch_data_attempt lib out base_url endpoint params)
       (clock_seconds out (clock_reads w)) 0 (w\<lparr>clock_reads := Suc (clock_reads w)\<rparr>)"
  by (simp add: fetch_data_def on_exception_def read_seconds_def)

text \<open>The retry loop: from try number \<open>tries + 1\<close> on it makes between one and
  \<open>max_tries - tries\<close> calls of the target, with one pause before each call after the
  first; each pause is bounded by the exponential schedule and by the time left.\<close>

lemma loop_props:
  assumes T: "\<And>w. snd (target w) = w\<lparr>http_calls := Suc (http_calls w)\<rparr>"
    and "tries < max_tries"
  shows "\<exists>n new. n < max_tries - tries
     \<and> http_calls (snd (on_exception_loop out max_tries max_time target start tries w)) = http_calls w + n + 1
     \<and> clock_reads (snd (on_exception_loop out max_tries max_time target start tries w)) = clock_reads w + n + 1
     \<and> random_draws (snd (on_exception_loop out max_tries max_time target start tries w)) = random_draws w + n
     \<and> s3_objects (snd (on_exception_loop out max_tries max_time target start tries w)) = s3_objects w
     \<and> put_calls (snd (on_exception_loop out max_tries max_time target start tries w)) = put_calls w
     \<and> sleeps (snd (on_exception_loop out max_tries max_time target start tries w)) = sleeps w @ new
     \<and> length new = n
     \<and> (\<forall>k<n. new ! k \<le> 2 ^ (tries + k) * random_unit out (random_draws w + k)
               \<and> new ! k \<le> max_time - (clock_seconds out (clock_reads w + k) - start)
               \<and> clock_seconds out (clock_reads w + k) - start < max_time)"
  using assms(2)
proof (induction "max_tries - tries" arbitrary: tries w)
  case 0
  then show ?case by simp
next
  case (Suc d)
  let ?w1 = "w\<lparr>clock_reads := Suc (clock_reads w)\<rparr>"
  let ?elapsed = "clock_seconds out (clock_reads w) - start"
  obtain r w2 where tw: "target ?w1 = (r, w2)" by (cases "target ?w1")
  have "w2 = snd (target ?w1)" by (simp add: tw)
  also have "\<dots> = ?w1\<lparr>http_calls := Suc (http_calls w)\<rparr>" by (simp add: T)
  finally have w2: "w2 = ?w1\<lparr>http_calls := Suc (http_calls w)\<rparr>" .
  show ?case
  proof (cases "\<exists>e. r = Inl e \<and> retried_exception e \<and> \<not> (max_tries \<le> Suc tries \<or> max_time \<le> ?elapsed)")
    case False
    then have "snd (on_exception_loop out max_tries max_time target start tries w) = w2"
      by (subst on_exception_loop.simps) (auto simp: read_seconds_def Let_def tw split: sum.splits)
    then show ?thesis using w2 Suc.prems by (intro exI [of _ 0] exI [of _ "[]"]) simp
  next
    case True
    then obtain e where e: "r = Inl e" "retried_exception e" "Suc tries < max_tries" "?elapsed < max_time"
      by auto
    let ?seconds = "min (2 ^ tries * random_unit out (random_draws w)) (max_time - ?elapsed)"
    let ?w3 = "time_sleep ?seconds (w2\<lparr>random_draws := Suc (random_draws w)\<rparr>)"
    have step: "on_exception_loop out max_tries max_time target start tries w
              = on_exception_loop out max_tries max_time target start (Suc tries) ?w3"
      using e by (subst on_exception_loop.simps)
        (simp add: read_seconds_def Let_def tw random_random_def w2)
    have IH: "\<exists>n new. n < max_tries - Suc tries
     \<and> http_calls (snd (on_exception_loop out max_tries max_time target start (Suc tries) ?w3)) = http_calls ?w3 + n + 1
     \<and> clock_reads (snd (on_exception_loop out max_tries max_time target start (Suc tries) ?w3)) = clock_reads ?w3 + n + 1
     \<and> random_draws (snd (on_exception_loop out max_tries max_time target start (Suc tries) ?w3)) = random_draws ?w3 + n
     \<and> s3_objects (snd (on_exception_loop out max_tries max_time target start (Suc tries) ?w3)) = s3_objects ?w3
     \<and> put_calls (snd (on_exception_loop out max_tries max_time target start (Suc tries) ?w3)) = put_calls ?w3
     \<and> sleeps (snd (on_exception_loop out max_tries max_time target start (Suc tries) ?w3)) = sleeps ?w3 @ new
     \<and> length new = n
     \<and> (\<forall>k<n. new ! k \<le> 2 ^ (Suc tries + k) * random_unit out (random_draws ?w3 + k)
               \<and> new ! k \<le> max_time - (clock_seconds out (clock_reads ?w3 + k) - start)
               \<and> clock_seconds out (clock_reads ?w3 + k) - start < max_time)"
      using e(3) Suc.hyps(2) by (intro Suc.hyps(1)) simp_all
    then obtain n new where n: "n < max_tries - Suc tries"
      and P: "http_calls (snd (on_exception_loop out max_tries max_time target start (Suc tries) ?w3)) = http_calls ?w3 + n + 1"
       "clock_reads (snd (on_exception_loop out max_tries max_time target start (Suc tries) ?w3)) = clock_reads ?w3 + n + 1"
       "random_draws (snd (on_exception_loop out max_tries max_time target start (Suc tries) ?w3)) = random_draws ?w3 + n"
       "s3_objects (snd (on_exception_loop out max_tries max_time target start (Suc tries) ?w3)) = s3_objects ?w3"
       "put_calls (snd (on_exception_loop out max_tries max_time target start (Suc tries) ?w3)) = put_calls ?w3"
       "sleeps (snd (on_exception_loop out max_tries max_time target start (Suc tries) ?w3)) = sleeps ?w3 @ new"
       "length new = n"
      and Q: "\<forall>k<n. new ! k \<le> 2 ^ (Suc tries + k) * random_unit out (random_draws ?w3 + k)
               \<and> new ! k \<le> max_time - (clock_seconds out (clock_reads ?w3 + k) - start)
               \<and> clock_seconds out (clock_reads ?w3 + k) - start < max_time"
      by blast
    have w3: "http_calls ?w3 = Suc (http_calls w)" "clock_reads ?w3 = Suc (clock_reads w)"
      "random_draws ?w3 = Suc (random_draws w)" "s3_objects ?w3 = s3_objects w"
      "put_calls ?w3 = put_calls w" "sleeps ?w3 = sleeps w @ [?seconds]"
      by (simp_all add: w2 time_sleep_def)
    have R: "\<forall>k<Suc n. (?seconds # new) ! k \<le> 2 ^ (tries + k) * random_unit out (random_draws w + k)
               \<and> (?seconds # new) ! k \<le> max_time - (clock_seconds out (clock_reads w + k) - start)
               \<and> clock_seconds out (clock_reads w + k) - start < max_time"
    proof (intro allI impI)
      fix k assume k: "k < Suc n"
      show "(?seconds # new) ! k \<le> 2 ^ (tries + k) * random_unit out (random_draws w + k)
               \<and> (?seconds # new) ! k \<le> max_time - (clock_seconds out (clock_reads w + k) - start)
               \<and> clock_seconds out (clock_reads w + k) - start < max_time"
      proof (cases k)
        case 0
        then show ?thesis using e(4) by simp
      next
        case (Suc j)
        then have "j < n" using k by simp
        with Q have "new ! j \<le> 2 ^ (Suc tries + j) * random_unit out (random_draws ?w3 + j)
               \<and> new ! j \<le> max_time - (clock_seconds out (clock_reads ?w3 + j) - start)
               \<and> clock_seconds out (clock_reads ?w3 + j) - start < max_time" by blast
        then show ?thesis using Suc by (simp add: w3)
      qed
    qed
    let ?L = "on_exception_loop out max_tries max_time target start (Suc tries) ?w3"
    have "Suc n < max_tries - tries" using n by simp
    moreover have "http_calls (snd ?L) = http_calls w + Suc n + 1" using P(1) w3(1) by simp
    moreover have "clock_reads (snd ?L) = clock_reads w + Suc n + 1" using P(2) w3(2) by simp
    moreover have "random_draws (snd ?L) = random_draws w + Suc n" using P(3) w3(3) by simp
    moreover have "s3_objects (snd ?L) = s3_objects w" using P(4) w3(4) by simp
    moreover have "put_calls (snd ?L) = put_calls w" using P(5) w3(5) by simp
    moreover have "sleeps (snd ?L) = sleeps w @ (?seconds # new)" using P(6) w3(6) by simp
    moreover have "length (?seconds # new) = Suc n" using P(7) by simp
    ultimately show ?thesis
      unfolding step using R by blast
  qed
qed

lemma first_try:
  assumes "fst (target (w\<lparr>clock_reads := Suc (clock_reads w)\<rparr>)) = r"
  shows "(\<forall>v. r = Inr v \<longrightarrow>
            on_exception_loop out max_tries max_time target start tries w
              = target (w\<lparr>clock_reads := Suc (clock_reads w)\<rparr>))
       \<and> (\<forall>e. r = Inl e \<and> \<not> retried_exception e \<longrightarrow>
            on_exception_loop out max_tries max_time target start tries w
              = target (w\<lparr>clock_reads := Suc (clock_reads w)\<rparr>))"
  using assms
  by (subst on_exception_loop.simps, subst on_exception_loop.simps)
     (auto simp: read_seconds_def Let_def split: prod.splits sum.splits)






subsection \<open>Pagination\<close>

text \<open>A request that is answered with a list and a status outside 400 to 599 succeeds at
  the first attempt: \<open>fetch_data\<close> reads the clock twice and makes one request.\<close>

lemma fetch_data_page:
  assumes "http_get out (http_calls w) (if endpoint \<noteq> [] then urljoin lib base_url endpoint else base_url) params
             = GetReturns status_code error_text (Inr (PList xs))"
    and "\<not> (400 \<le> status_code \<and> status_code < 600)"
  shows "fetch_data lib out base_url endpoint params w =
           (Inr (PList xs), w\<lparr>clock_reads := clock_reads w + 2, http_calls := Suc (http_calls w)\<rparr>)"
proof -
  let ?w0 = "w\<lparr>clock_reads := Suc (clock_reads w)\<rparr>"
  let ?w1 = "?w0\<lparr>clock_reads := Suc (clock_reads ?w0)\<rparr>"
  let ?A = "fetch_data_attempt lib out base_url endpoint params"
  have a: "?A ?w1 = (Inr (PList xs), w\<lparr>clock_reads := clock_reads w + 2, http_calls := Suc (http_calls w)\<rparr>)"
    using assms by (simp add: fetch_data_attempt_def Let_def)
  then have "fst (?A ?w1) = Inr (PList xs)" by simp
  then have "on_exception_loop out 3 60 ?A (clock_seconds out (clock_reads w)) 0 ?w0 = ?A ?w1"
    using first_try [of ?A ?w0 "Inr (PList xs)" out 3 60 "clock_seconds out (clock_reads w)" 0]
    by simp
  then show ?thesis unfolding fetch_data_unfold a .
qed










subsection \<open>The orchestrator\<close>

text \<open>\<open>fetch_data\<close> stores nothing.\<close>

lemma fetch_data_keeps_store:
  "s3_objects (snd (fetch_data lib out base_url endpoint params w)) = s3_objects w
   \<and> put_calls (snd (fetch_data lib out base_url endpoint params w)) = put_calls w"
proof -
  have lt: "(0::nat) < 3" by simp
  let ?w0 = "w\<lparr>clock_reads := Suc (clock_reads w)\<rparr>"
  have T: "\<And>w. snd (fetch_data_attempt lib out base_url endpoint params w)
               = w\<lparr>http_calls := Suc (http_calls w)\<rparr>"
    by (rule fetch_data_attempt_state)
  obtain n new where
      "s3_objects (snd (on_exception_loop out 3 60 (fetch_data_attempt lib out base_url endpoint params)
                          (clock_seconds out (clock_reads w)) 0 ?w0)) = s3_objects ?w0"
      "put_calls (snd (on_exception_loop out 3 60 (fetch_data_attempt lib out base_url endpoint params)
                          (clock_seconds out (clock_reads w)) 0 ?w0)) = put_calls ?w0"
    using loop_props [OF T lt, where out = out and max_time = 60
        and start = "clock_seconds out (clock_reads w)" and w = ?w0]
    by blast
  then show ?thesis unfolding fetch_data_unfold by simp
qed

text \<open>An error response has status 500. Without the bucket name, or with an event that is
  no dictionary, the handler answers with an error before the API client is called.\<close>

lemma error_response_status: "statusCode (error_response lib e) = 500"
  by (cases e) simp_all

lemma lambda_handler_without_fetch:
  "environ ''DATA_BUCKET_NAME'' = None \<Longrightarrow>
     lambda_handler lib out environ event aws_request_id w
       = (error_response lib (KeyError (quoted ''DATA_BUCKET_NAME'')), w)"
  "environ ''DATA_BUCKET_NAME'' = Some bucket_name \<Longrightarrow> \<forall>ev. event \<noteq> PDict ev \<Longrightarrow>
     lambda_handler lib out environ event aws_request_id w
       = (error_response lib
            (AttributeError (quoted (type_name event) @ '' object has no attribute '' @ quoted ''get'')), w)"
  by (cases event; simp add: lambda_handler_def Let_def)+

text \<open>
  Claim C9. When the bucket name is configured, the event is a dictionary and the API client
  returns the empty list, \<open>lambda_handler\<close> returns status 204 with the body
  \<open>{"message": "No data to process"}\<close>. The state is the one the fetch left: nothing is
  processed, the clock is not read again, and no object is stored. The response is no error
  response.
\<close>

theorem lambda_handler_no_data:
  assumes "environ ''DATA_BUCKET_NAME'' = Some bucket_name"
    and "fetch_data lib out
           (case environ ''API_ENDPOINT'' of
              Some u \<Rightarrow> u
            | None \<Rightarrow> ''https://jsonplaceholder.typicode.com/users'')
           [] (dict_get ev ''api_params'' (PDict [])) w = (Inr (PList []), w1)"
  shows "lambda_handler lib out environ (PDict ev) aws_request_id w =
           (\<lparr>statusCode = 204,
             body = json_dumps lib (PDict [(''message'', PStr ''No data to process'')])\<rparr>, w1)
       \<and> s3_objects w1 = s3_objects w \<and> put_calls w1 = put_calls w
       \<and> (\<forall>e. fst (lambda_handler lib out environ (PDict ev) aws_request_id w) \<noteq> error_response lib e)"
proof -
  have h: "lambda_handler lib out environ (PDict ev) aws_request_id w =
           (\<lparr>statusCode = 204,
             body = json_dumps lib (PDict [(''message'', PStr ''No data to process'')])\<rparr>, w1)"
    using assms by (simp add: lambda_handler_def Let_def)
  have k: "s3_objects w1 = s3_objects w \<and> put_calls w1 = put_calls w"
    using fetch_data_keeps_store [of lib out
        "case environ ''API_ENDPOINT'' of Some u \<Rightarrow> u | None \<Rightarrow> ''https://jsonplaceholder.typicode.com/users''"
        "[]" "dict_get ev ''api_params'' (PDict [])" w] assms(2)
    by simp
  have n: "fst (lambda_handler lib out environ (PDict ev) aws_request_id w) \<noteq> error_response lib e" for e
  proof
    assume "fst (lambda_handler lib out environ (PDict ev) aws_request_id w) = error_response lib e"
    then have "statusCode (fst (lambda_handler lib out environ (PDict ev) aws_request_id w)) = 500"
      by (simp add: error_response_status)
    then show False unfolding h by simp
  qed
  show ?thesis using h k n by blast
qed

theorem lambda_handler_no_data_witness:
  "lambda_handler sample_lib sample_out [''DATA_BUCKET_NAME'' \<mapsto> ''test-bucket'']
     (PDict [(''force_refresh'', PBool False), (''api_params'', PDict [])]) None world0 =
     (\<lparr>statusCode = 204, body = ''json''\<rparr>, world0\<lparr>clock_reads := 2, http_calls := 1\<rparr>)"
proof -
  have e: "[''DATA_BUCKET_NAME'' \<mapsto> ''test-bucket''] ''DATA_BUCKET_NAME'' = Some ''test-bucket''"
    by simp
  have g: "http_get sample_out (http_calls world0)
             (if [] \<noteq> [] then urljoin sample_lib ''https://jsonplaceholder.typicode.com/users'' []
              else ''https://jsonplaceholder.typicode.com/users'') (PDict [])
           = GetReturns 200 [] (Inr (PList []))"
    by (simp add: sample_out_def)
  have ok: "\<not> (400 \<le> (200::nat) \<and> (200::nat) < 600)" by simp
  have f: "fetch_data sample_lib sample_out
           (case [''DATA_BUCKET_NAME'' \<mapsto> ''test-bucket''] ''API_ENDPOINT'' of
              Some u \<Rightarrow> u
            | None \<Rightarrow> ''https://jsonplaceholder.typicode.com/users'')
           [] (dict_get [(''force_refresh'', PBool False), (''api_params'', PDict [])] ''api_params'' (PDict []))
           world0 = (Inr (PList []), world0\<lparr>clock_reads := 2, http_calls := 1\<rparr>)"
    using fetch_data_page [OF g ok] by (simp add: dict_get_def world0_def)
  have r: "json_dumps sample_lib (PDict [(''message'', PStr ''No data to process'')]) = ''json''"
    by (simp add: sample_lib_def)
  from lambda_handler_no_data [OF e f, of None]
  have "lambda_handler sample_lib sample_out [''DATA_BUCKET_NAME'' \<mapsto> ''test-bucket'']
     (PDict [(''force_refresh'', PBool False), (''api_params'', PDict [])]) None world0 =
     (\<lparr>statusCode = 204,
       body = json_dumps sample_lib (PDict [(''message'', PStr ''No data to process'')])\<rparr>,
      world0\<lparr>clock_reads := 2, http_calls := 1\<rparr>)"
    by (rule conjunct1)
  then show ?thesis unfolding r .
qed

end
